theory Spec2Isabelle
  imports Complex_Main
begin

section \<open>Numbers, exceptions and console output\<close>

text \<open>
  The Python sources compute on IEEE doubles. Scalars (\<open>K\<close>, \<open>L\<close>, \<open>T\<close>, \<open>yref\<close>,
  \<open>tolerance\<close>, coefficients) are idealised as real numbers: rounding, overflow and
  underflow are not part of the model. Where the code itself distinguishes non-finite
  values (the result \<open>float('inf')\<close> of the P rule, the \<open>np.isfinite\<close> checks on the
  arrays of a trace), a value is a \<open>pyfloat\<close>.
\<close>

datatype pyfloat = Finite real | PosInf | NegInf | NaN


text \<open>
  Both tuning modules raise one exception class, \<open>TuningError\<close>, told apart by the
  check that raised it. Dividing Python floats by zero raises the builtin
  \<open>ZeroDivisionError\<close>.
\<close>

datatype tuning_check =
    K_not_positive
  | L_negative
  | T_not_positive
  | Bad_criterion
  | Bad_control_type

datatype py_exn = TuningError tuning_check | ZeroDivisionError



text \<open>Python's \<open>a / b\<close> on floats.\<close>

definition py_div :: "real \<Rightarrow> real \<Rightarrow> py_exn + real" where
  "py_div a b = (if b = 0 then Inl ZeroDivisionError else Inr (a / b))"

text \<open>
  What \<open>sintonia_pid_ziegler_nichols\<close> prints: the three-line warning about a high
  ratio, carrying the ratio it shows.
\<close>

datatype console = High_ratio_warning real

type_synonym pid = "pyfloat \<times> pyfloat \<times> pyfloat"

section \<open>Ziegler-Nichols tuning (src/tuning/ziegler\_nichols.py)\<close>

definition sintonia_pid_ziegler_nichols ::
    "real \<Rightarrow> real \<Rightarrow> real \<Rightarrow> string \<Rightarrow> console list \<times> (py_exn + pid)" where
  "sintonia_pid_ziegler_nichols K L T control_type =
    (if K \<le> 0 then ([], Inl (TuningError K_not_positive))
     else if L < 0 then ([], Inl (TuningError L_negative))
     else if T \<le> 0 then ([], Inl (TuningError T_not_positive))
     else if control_type \<notin> set [''P'', ''PI'', ''PID'']
       then ([], Inl (TuningError Bad_control_type))
     else
       (if L / T > 0.5 then [High_ratio_warning (L / T)] else [],
        if control_type = ''P'' then
          (case py_div T (L * K) of
             Inl e \<Rightarrow> Inl e
           | Inr Kp \<Rightarrow> Inr (Finite Kp, PosInf, Finite 0))
        else if control_type = ''PI'' then
          (case py_div (0.9 * T) (L * K) of
             Inl e \<Rightarrow> Inl e
           | Inr Kp \<Rightarrow> Inr (Finite Kp, Finite (3.33 * L), Finite 0))
        else
          (case py_div (1.2 * T) (L * K) of
             Inl e \<Rightarrow> Inl e
           | Inr Kp \<Rightarrow> Inr (Finite Kp, Finite (2 * L), Finite (0.5 * L)))))"

section \<open>Cohen-Coon tuning (src/tuning/cohen\_coon.py)\<close>

text \<open>
  The derivative time of the chosen rule is computed first and overwritten by zero
  for a PI controller, as in the source.
\<close>

definition sintonia_pid_cohen_coon ::
    "real \<Rightarrow> real \<Rightarrow> real \<Rightarrow> string \<Rightarrow> string \<Rightarrow> py_exn + pid" where
  "sintonia_pid_cohen_coon K L T criterion control_type =
    (if K \<le> 0 then Inl (TuningError K_not_positive)
     else if L < 0 then Inl (TuningError L_negative)
     else if T \<le> 0 then Inl (TuningError T_not_positive)
     else if criterion \<notin> set [''IAE'', ''ISE'', ''ITAE'']
       then Inl (TuningError Bad_criterion)
     else if control_type \<notin> set [''PI'', ''PID'']
       then Inl (TuningError Bad_control_type)
     else
       (let ratio = L / T in
        case
          (if criterion = ''IAE'' then
             (if ratio < 0.3 then
                (case py_div (1.35 * T) (L * K) of
                   Inl e \<Rightarrow> Inl e
                 | Inr Kp \<Rightarrow> Inr (Kp, 2.5 * L, 0.37 * L))
              else
                (case py_div T (L * K) of
                   Inl e \<Rightarrow> Inl e
                 | Inr q \<Rightarrow>
                     (case py_div (L * (32 + 6 * ratio)) (13 + 8 * ratio) of
                        Inl e \<Rightarrow> Inl e
                      | Inr Ti \<Rightarrow>
                          (case py_div (4 * L) (11 + 2 * ratio) of
                             Inl e \<Rightarrow> Inl e
                           | Inr Td \<Rightarrow> Inr (q * (4 / 3 + ratio / 4), Ti, Td)))))
           else if criterion = ''ISE'' then
             (case py_div (1.495 * T) (L * K) of
                Inl e \<Rightarrow> Inl e
              | Inr Kp \<Rightarrow> Inr (Kp, 1.57 * L, 0.735 * L))
           else
             (case py_div (0.859 * T) (L * K) of
                Inl e \<Rightarrow> Inl e
              | Inr Kp \<Rightarrow> Inr (Kp, 0.674 * L, 0.134 * L)))
        of
          Inl e \<Rightarrow> Inl e
        | Inr (Kp, Ti, Td) \<Rightarrow>
            Inr (Finite Kp, Finite Ti,
                 Finite (if control_type = ''PI'' then 0 else Td))))"
section \<open>Performance metrics (src/simulation/metrics.py)\<close>

text \<open>
  \<open>calcular_metricas_respuesta\<close> raises one exception class, \<open>MetricaError\<close>, from
  six checks; every one of them reports a malformed trace (the InvalidTrace kind of the
  specification).
\<close>

datatype metrica_error =
    Too_few_samples
  | Length_mismatch
  | Non_finite_t
  | Non_finite_y
  | Zero_reference
  | Bad_tolerance

text \<open>
  The arrays \<open>t\<close> and \<open>y\<close> are float64 arrays that may hold non-finite values.
  \<open>finite_array\<close> is the check \<open>np.any(~np.isfinite(a))\<close> together with the reading of
  the values that follows it: \<open>None\<close> when some element is NaN or infinite, else the
  real values.
\<close>

fun finite_array :: "pyfloat list \<Rightarrow> real list option" where
  "finite_array [] = Some []"
| "finite_array (Finite r # vs) = map_option ((#) r) (finite_array vs)"
| "finite_array (v # vs) = None"

text \<open>
  \<open>np.max\<close> of a one-dimensional array. numpy raises on an empty array; both callers
  reach \<open>np_max\<close> only after a check of the length (at least ten samples, at least one
  pole).
\<close>

fun np_max :: "real list \<Rightarrow> real" where
  "np_max (x # xs) = fold max xs x"

text \<open>
  The settling time, lines 266 to 288 of \<open>calcular_metricas_respuesta\<close>:
  \<open>np.where(~within_band)[0]\<close> is the increasing list of the indices outside the band,
  \<open>t[-1]\<close> is \<open>last t\<close>.
\<close>

definition settling_time :: "real list \<Rightarrow> real list \<Rightarrow> real \<Rightarrow> real \<Rightarrow> real" where
  "settling_time t y yref settling_band =
    (let error = map (\<lambda>v. \<bar>v - yref\<bar>) y;
         within_band = map (\<lambda>e. e \<le> settling_band) error
     in if \<not> list_ex (\<lambda>b. b) within_band then last t
        else
          (let indices_out = filter (\<lambda>i. \<not> within_band ! i) [0..<length within_band]
           in if length indices_out = 0 then t ! 0
              else
                (let last_out = last indices_out
                 in if last_out + 1 < length t then t ! (last_out + 1) else last t)))"

text \<open>
  The result is the dictionary of the source, as the list of its items in the order of
  the \<open>return\<close> statement.
\<close>

definition calcular_metricas_respuesta ::
    "pyfloat list \<Rightarrow> pyfloat list \<Rightarrow> real \<Rightarrow> real \<Rightarrow> metrica_error + (string \<times> real) list" where
  "calcular_metricas_respuesta t y yref tolerance =
    (if length t < 10 then Inl Too_few_samples
     else if length t \<noteq> length y then Inl Length_mismatch
     else
       (case finite_array t of
          None \<Rightarrow> Inl Non_finite_t
        | Some tv \<Rightarrow>
            (case finite_array y of
               None \<Rightarrow> Inl Non_finite_y
             | Some yv \<Rightarrow>
                 if yref = 0 then Inl Zero_reference
                 else if tolerance \<le> 0 \<or> tolerance \<ge> 1 then Inl Bad_tolerance
                 else
                   (let y_max = np_max yv;
                        y_final = last yv;
                        ess = yref - y_final;
                        ess_percent = (ess / yref) * 100;
                        Mp = (y_max - yref) / \<bar>yref\<bar> * 100;
                        settling_band = tolerance * \<bar>yref\<bar>;
                        ts = settling_time tv yv yref settling_band
                    in Inr [(''ts'', ts), (''Mp'', Mp), (''ess'', ess),
                            (''ess_percent'', ess_percent), (''y_max'', y_max),
                            (''y_final'', y_final), (''settling_band'', settling_band)]))))"

section \<open>Transfer functions (src/core/transfer\_function.py)\<close>

text \<open>
  A transfer function is the python-control object built by
  \<open>create_transfer_function\<close> from the coefficients of its numerator and denominator, in
  descending powers. Its poles are computed by the library (\<open>tf.poles()\<close>, \<open>tf.pole()\<close>),
  which is not part of the repository: every operation that asks for the poles takes the
  library's root finder as its first argument \<open>tf_poles\<close>.
\<close>

record transfer_function =
  num :: "real list"
  den :: "real list"

text \<open>
  \<open>np.polyval\<close>: Horner's rule on the descending coefficients, here at a complex
  argument. A pole is a root of the denominator.
\<close>

definition polyval :: "real list \<Rightarrow> complex \<Rightarrow> complex" where
  "polyval p s = foldl (\<lambda>acc c. acc * s + of_real c) 0 p"

definition get_poles ::
    "(transfer_function \<Rightarrow> complex list) \<Rightarrow> transfer_function \<Rightarrow> complex list" where
  "get_poles tf_poles tf = tf_poles tf"

definition is_stable ::
    "(transfer_function \<Rightarrow> complex list) \<Rightarrow> transfer_function \<Rightarrow> real \<Rightarrow> bool" where
  "is_stable tf_poles tf tolerance =
     list_all (\<lambda>p. Re p < - tolerance) (get_poles tf_poles tf)"

section \<open>Open-loop simulation (src/simulation/open\_loop.py)\<close>

text \<open>
  \<open>simulate_step_response\<close> raises \<open>SimulationError\<close> from five checks and wraps any
  exception of the library's \<open>step_response\<close> in a sixth.
\<close>

datatype simulation_error =
    Tf_is_none
  | Unstable_system
  | Too_few_points
  | Input_not_positive
  | T_final_not_positive
  | Step_response_failed

text \<open>
  \<open>np.linspace(start, stop, n)\<close> for a natural number of points: \<open>n - 1\<close> equal steps,
  the last sample set to \<open>stop\<close>.
\<close>

definition linspace :: "real \<Rightarrow> real \<Rightarrow> nat \<Rightarrow> real list" where
  "linspace start stop n =
     (if n = 0 then []
      else if n = 1 then [start]
      else map (\<lambda>i. start + real i * ((stop - start) / real (n - 1))) [0..<n - 1] @ [stop])"

text \<open>
  The source's \<open>_estimate_settling_time\<close>, named without its leading underscore. It
  reads the poles through \<open>tf.pole()\<close>, the library's older name of \<open>tf.poles()\<close>: the
  same root finder. Its parameter \<open>tolerance\<close> is not used by the source either.
\<close>

definition estimate_settling_time ::
    "(transfer_function \<Rightarrow> complex list) \<Rightarrow> transfer_function \<Rightarrow> real \<Rightarrow> real \<Rightarrow> real" where
  "estimate_settling_time tf_poles tf tolerance max_time =
     (let poles = tf_poles tf
      in if length poles = 0 then 10
         else
           (let real_parts = map Re poles;
                slowest_pole = np_max real_parts
            in if slowest_pole \<ge> 0 then max_time
               else
                 (let ts_estimate = - 5 / slowest_pole
                  in min ts_estimate max_time)))"

text \<open>
  The library's \<open>ct.step_response(tf, T=time)\<close> is the argument \<open>step_response\<close>:
  \<open>None\<close> when it raises, else the pair of its time and output arrays. \<open>tf\<close> may be
  \<open>None\<close> in Python, hence the option; so may \<open>t_final\<close>, its default.
\<close>

definition simulate_step_response ::
    "(transfer_function \<Rightarrow> complex list) \<Rightarrow>
     (transfer_function \<Rightarrow> real list \<Rightarrow> (real list \<times> real list) option) \<Rightarrow>
     transfer_function option \<Rightarrow> real option \<Rightarrow> int \<Rightarrow> real \<Rightarrow>
     simulation_error + real list \<times> real list" where
  "simulate_step_response tf_poles step_response tf t_final num_points input_magnitude =
     (case tf of
        None \<Rightarrow> Inl Tf_is_none
      | Some g \<Rightarrow>
          if \<not> is_stable tf_poles g (1 / 10 ^ 10) then Inl Unstable_system
          else if num_points < 10 then Inl Too_few_points
          else if input_magnitude \<le> 0 then Inl Input_not_positive
          else
            (case
               (case t_final of
                  None \<Rightarrow> Inr (estimate_settling_time tf_poles g 0.05 1000)
                | Some v \<Rightarrow> if v \<le> 0 then Inl T_final_not_positive else Inr v)
             of
               Inl e \<Rightarrow> Inl e
             | Inr horizon \<Rightarrow>
                 (let time = linspace 0 horizon (nat num_points)
                  in case step_response g time of
                       None \<Rightarrow> Inl Step_response_failed
                     | Some (t_response, y_response) \<Rightarrow>
                         Inr (t_response, map (\<lambda>v. v * input_magnitude) y_response))))"

section \<open>Sample traces\<close>

text \<open>
  A trace of ten samples, one per second, on which the metrics are evaluated below:
  the output is outside the 5 percent band around 1 for the last time at index 5.
\<close>

abbreviation sample_time :: "pyfloat list" where
  "sample_time \<equiv> map Finite [0, 1, 2, 3, 4, 5, 6, 7, 8, 9]"

abbreviation sample_output :: "pyfloat list" where
  "sample_output \<equiv> map Finite [0, 0.5, 0.9, 1.2, 1.01, 1.1, 1, 1, 1, 1]"

section \<open>Properties of the tuning rules\<close>

subsection \<open>The formulas, for a positive dead time\<close>

lemma ziegler_nichols_formulas:
  assumes "0 < K" and "0 < L" and "0 < T"
  shows "snd (sintonia_pid_ziegler_nichols K L T ''P'') =
           Inr (Finite (T / (L * K)), PosInf, Finite 0)"
    and "snd (sintonia_pid_ziegler_nichols K L T ''PI'') =
           Inr (Finite (0.9 * T / (L * K)), Finite (3.33 * L), Finite 0)"
    and "snd (sintonia_pid_ziegler_nichols K L T ''PID'') =
           Inr (Finite (1.2 * T / (L * K)), Finite (2 * L), Finite (0.5 * L))"
  using assms by (simp_all add: sintonia_pid_ziegler_nichols_def py_div_def)

lemma ziegler_nichols_literal_case:
  "snd (sintonia_pid_ziegler_nichols 1 2 10 ''PID'') = Inr (Finite 6, Finite 4, Finite 1)"
  by (simp add: sintonia_pid_ziegler_nichols_def py_div_def)

lemma cohen_coon_general_denominators:
  assumes "0 < (L::real)" and "0 < T"
  shows "13 + 8 * (L / T) \<noteq> 0" and "11 + 2 * (L / T) \<noteq> 0"
proof -
  have "0 < L / T" using assms by simp
  then show "13 + 8 * (L / T) \<noteq> 0" and "11 + 2 * (L / T) \<noteq> 0" by simp_all
qed

lemma cohen_coon_formulas:
  assumes "0 < K" and "0 < L" and "0 < T" and ct: "ct = ''PI'' \<or> ct = ''PID''"
  shows "L / T < 0.3 \<Longrightarrow> sintonia_pid_cohen_coon K L T ''IAE'' ct =
      Inr (Finite (1.35 * T / (L * K)), Finite (2.5 * L),
           Finite (if ct = ''PI'' then 0 else 0.37 * L))"
    and "L / T \<ge> 0.3 \<Longrightarrow> sintonia_pid_cohen_coon K L T ''IAE'' ct =
      Inr (Finite ((T / (L * K)) * (4 / 3 + (L / T) / 4)),
           Finite (L * (32 + 6 * (L / T)) / (13 + 8 * (L / T))),
           Finite (if ct = ''PI'' then 0 else 4 * L / (11 + 2 * (L / T))))"
    and "sintonia_pid_cohen_coon K L T ''ISE'' ct =
      Inr (Finite (1.495 * T / (L * K)), Finite (1.57 * L),
           Finite (if ct = ''PI'' then 0 else 0.735 * L))"
    and "sintonia_pid_cohen_coon K L T ''ITAE'' ct =
      Inr (Finite (0.859 * T / (L * K)), Finite (0.674 * L),
           Finite (if ct = ''PI'' then 0 else 0.134 * L))"
  using assms cohen_coon_general_denominators [of L T]
  by (auto simp add: sintonia_pid_cohen_coon_def py_div_def Let_def)

lemma cohen_coon_literal_case:
  "sintonia_pid_cohen_coon 1 2 10 ''IAE'' ''PID'' =
     Inr (Finite 6.75, Finite 5, Finite 0.74)"
  by (simp add: sintonia_pid_cohen_coon_def py_div_def)

subsection \<open>A zero dead time\<close>

text \<open>
  C1. Ziegler-Nichols tuning is claimed to return the values of its formulas for every
  model with \<open>K > 0\<close>, \<open>L \<ge> 0\<close>, \<open>T > 0\<close>. The model \<open>K = 1\<close>, \<open>L = 0\<close>, \<open>T = 10\<close>
  passes the four validation checks, and the PID rule then divides by \<open>L * K = 0\<close>:
  the call ends in a \<open>ZeroDivisionError\<close> and returns no gains. For \<open>L > 0\<close> the
  formulas, and the literal case \<open>(6, 4, 1)\<close>, are \<open>ziegler_nichols_formulas\<close> and
  \<open>ziegler_nichols_literal_case\<close>.
\<close>

theorem ziegler_nichols_zero_dead_time:
  "sintonia_pid_ziegler_nichols 1 0 10 ''PID'' = ([], Inl ZeroDivisionError)"
  by (simp add: sintonia_pid_ziegler_nichols_def py_div_def)

text \<open>
  C2. Cohen-Coon tuning is claimed to return the values of its formulas for every model
  with \<open>K > 0\<close>, \<open>L \<ge> 0\<close>, \<open>T > 0\<close>. At \<open>K = 1\<close>, \<open>L = 0\<close>, \<open>T = 10\<close> the ratio is
  \<open>0 < 0.3\<close>, the simplified IAE rule divides by \<open>L * K = 0\<close>, and the call ends in a
  \<open>ZeroDivisionError\<close>. For \<open>L > 0\<close> the formulas of every branch, the zero derivative
  time of a PI controller and the literal case \<open>(6.75, 5, 0.74)\<close> are
  \<open>cohen_coon_formulas\<close> and \<open>cohen_coon_literal_case\<close>.
\<close>

theorem cohen_coon_zero_dead_time:
  "sintonia_pid_cohen_coon 1 0 10 ''IAE'' ''PID'' = Inl ZeroDivisionError"
  by (simp add: sintonia_pid_cohen_coon_def py_div_def)

subsection \<open>The warning about a high ratio\<close>

text \<open>
  C3. For a model with \<open>K > 0\<close>, \<open>L \<ge> 0\<close>, \<open>T > 0\<close> and \<open>L / T > 0.5\<close>,
  Ziegler-Nichols tuning prints its warning and still returns the values of the formulas
  of the chosen control type: the high ratio raises no error.
\<close>

theorem ziegler_nichols_high_ratio_warns:
  assumes "0 < K" and "0 \<le> L" and "0 < T" and "L / T > 0.5"
    and "control_type \<in> set [''P'', ''PI'', ''PID'']"
  shows "sintonia_pid_ziegler_nichols K L T control_type =
    ([High_ratio_warning (L / T)],
     Inr (if control_type = ''P'' then (Finite (T / (L * K)), PosInf, Finite 0)
          else if control_type = ''PI''
            then (Finite (0.9 * T / (L * K)), Finite (3.33 * L), Finite 0)
          else (Finite (1.2 * T / (L * K)), Finite (2 * L), Finite (0.5 * L))))"
proof -
  have "L \<noteq> 0" using assms(4) by auto
  with assms show ?thesis
    by (auto simp add: sintonia_pid_ziegler_nichols_def py_div_def)
qed

theorem ziegler_nichols_high_ratio_warns_witness:
  "sintonia_pid_ziegler_nichols 1 6 10 ''PID'' =
     ([High_ratio_warning (3 / 5)], Inr (Finite 2, Finite 12, Finite 3))"
  using ziegler_nichols_high_ratio_warns [of 1 6 10 "''PID''"] by simp

subsection \<open>Validation errors\<close>




section \<open>Properties of the metrics\<close>

subsection \<open>Auxiliary facts\<close>


lemma finite_array_Some:
  "finite_array vs = Some rs \<Longrightarrow> vs = map Finite rs"
  by (induction vs arbitrary: rs rule: finite_array.induct) auto

lemma finite_array_map_Finite: "finite_array (map Finite rs) = Some rs"
  by (induction rs) auto

lemma np_max_eq_Max:
  assumes "ys \<noteq> []"
  shows "np_max ys = Max (set ys)"
proof (cases ys)
  case Nil
  with assms show ?thesis by simp
next
  case (Cons a list)
  show ?thesis using Max.set_eq_fold [of a list] by (simp add: Cons)
qed

lemma last_filter_upt:
  "i < n \<Longrightarrow> P i \<Longrightarrow> \<forall>j. i < j \<and> j < n \<longrightarrow> \<not> P j \<Longrightarrow> last (filter P [0..<n]) = i"
proof (induction n)
  case 0
  then show ?case by simp
next
  case (Suc n)
  show ?case
  proof (cases "i = n")
    case True
    with Suc.prems show ?thesis by simp
  next
    case False
    with Suc.prems have "i < n" and "\<not> P n" by auto
    with Suc show ?thesis by simp
  qed
qed

lemma settling_time_all_inside:
  assumes "y \<noteq> []" and "\<forall>i<length y. \<bar>y ! i - yref\<bar> \<le> band"
  shows "settling_time t y yref band = t ! 0"
proof -
  have ex: "list_ex (\<lambda>b. b) (map (\<lambda>e. e \<le> band) (map (\<lambda>v. \<bar>v - yref\<bar>) y))"
    using assms by (cases y) (auto simp add: list_ex_iff)
  have "filter (\<lambda>i. \<not> map (\<lambda>e. e \<le> band) (map (\<lambda>v. \<bar>v - yref\<bar>) y) ! i) [0..<length y] = []"
    using assms(2) by (auto simp add: filter_empty_conv)
  with ex show ?thesis by (simp add: settling_time_def)
qed

lemma settling_time_none_inside:
  assumes "\<forall>i<length y. \<bar>y ! i - yref\<bar> > band"
  shows "settling_time t y yref band = last t"
proof -
  have "\<not> list_ex (\<lambda>b. b) (map (\<lambda>e. e \<le> band) (map (\<lambda>v. \<bar>v - yref\<bar>) y))"
    using assms by (simp add: list_ex_iff) (metis in_set_conv_nth not_le)
  then show ?thesis by (simp add: settling_time_def)
qed

lemma settling_time_after_last_out:
  assumes len: "length t = length y"
    and i: "Suc i < length y"
    and out: "\<bar>y ! i - yref\<bar> > band"
    and later: "\<forall>j. i < j \<and> j < length y \<longrightarrow> \<bar>y ! j - yref\<bar> \<le> band"
  shows "settling_time t y yref band = t ! Suc i"
proof -
  let ?w = "map (\<lambda>e. e \<le> band) (map (\<lambda>v. \<bar>v - yref\<bar>) y)"
  have "?w ! Suc i" using i later by simp
  then have ex: "list_ex (\<lambda>b. b) ?w"
    using i by (auto simp add: list_ex_iff intro!: bexI [of _ "y ! Suc i"])
  have lst: "last (filter (\<lambda>k. \<not> ?w ! k) [0..<length y]) = i"
  proof (rule last_filter_upt)
    show "i < length y" using i by simp
    show "\<not> ?w ! i" using i out by simp
    show "\<forall>j. i < j \<and> j < length y \<longrightarrow> \<not> \<not> ?w ! j" using later by simp
  qed
  have ne: "filter (\<lambda>k. \<not> ?w ! k) [0..<length y] \<noteq> []"
    using i out by (auto simp add: filter_empty_conv intro!: bexI [of _ i])
  show ?thesis
    using ex lst ne len i by (simp add: settling_time_def Let_def)
qed

lemma settling_time_last_out:
  assumes len: "length t = length y" and "y \<noteq> []"
    and out: "\<bar>last y - yref\<bar> > band"
  shows "settling_time t y yref band = last t"
proof -
  let ?w = "map (\<lambda>e. e \<le> band) (map (\<lambda>v. \<bar>v - yref\<bar>) y)"
  let ?n = "length y"
  have n: "0 < ?n" using assms(2) by simp
  have lastw: "\<not> ?w ! (?n - 1)"
    using n out assms(2) by (simp add: last_conv_nth)
  have lst: "last (filter (\<lambda>k. \<not> ?w ! k) [0..<?n]) = ?n - 1"
  proof (rule last_filter_upt)
    show "?n - 1 < ?n" using n by simp
    show "\<not> ?w ! (?n - 1)" by (rule lastw)
    show "\<forall>j. ?n - 1 < j \<and> j < ?n \<longrightarrow> \<not> \<not> ?w ! j" by auto
  qed
  have ne: "filter (\<lambda>k. \<not> ?w ! k) [0..<?n] \<noteq> []"
    using n lastw by (auto simp add: filter_empty_conv intro!: bexI [of _ "?n - 1"])
  show ?thesis
    using lst ne len n by (simp add: settling_time_def Let_def)
qed

lemma calcular_metricas_respuesta_Inr:
  assumes "calcular_metricas_respuesta t y yref tolerance = Inr m"
  obtains tv yv where "t = map Finite tv" and "y = map Finite yv"
    and "10 \<le> length tv" and "length tv = length yv"
    and "yref \<noteq> 0" and "0 < tolerance" and "tolerance < 1"
    and "m = [(''ts'', settling_time tv yv yref (tolerance * \<bar>yref\<bar>)),
              (''Mp'', (np_max yv - yref) / \<bar>yref\<bar> * 100),
              (''ess'', yref - last yv),
              (''ess_percent'', (yref - last yv) / yref * 100),
              (''y_max'', np_max yv),
              (''y_final'', last yv),
              (''settling_band'', tolerance * \<bar>yref\<bar>)]"
proof -
  from assms obtain tv yv where tv: "finite_array t = Some tv" and yv: "finite_array y = Some yv"
    by (auto simp add: calcular_metricas_respuesta_def split: if_splits option.splits)
  have t: "t = map Finite tv" and y: "y = map Finite yv"
    using tv yv by (simp_all add: finite_array_Some)
  show thesis
  proof (rule that [OF t y])
    show "10 \<le> length tv" "length tv = length yv" "yref \<noteq> 0" "0 < tolerance" "tolerance < 1"
      using assms tv yv t y
      by (auto simp add: calcular_metricas_respuesta_def split: if_splits)
    show "m = [(''ts'', settling_time tv yv yref (tolerance * \<bar>yref\<bar>)),
              (''Mp'', (np_max yv - yref) / \<bar>yref\<bar> * 100),
              (''ess'', yref - last yv),
              (''ess_percent'', (yref - last yv) / yref * 100),
              (''y_max'', np_max yv),
              (''y_final'', last yv),
              (''settling_band'', tolerance * \<bar>yref\<bar>)]"
      using assms tv yv
      by (auto simp add: calcular_metricas_respuesta_def Let_def split: if_splits)
  qed
qed

lemma sample_metrics:
  "calcular_metricas_respuesta sample_time sample_output 1 0.05 =
     Inr [(''ts'', 6), (''Mp'', 20), (''ess'', 0), (''ess_percent'', 0),
          (''y_max'', 1.2), (''y_final'', 1), (''settling_band'', 0.05)]"
  by (simp add: calcular_metricas_respuesta_def settling_time_def upt_conv_Cons)

lemma steady_metrics:
  "calcular_metricas_respuesta sample_time (map Finite [1, 1, 1, 1, 1, 1, 1, 1, 1, 1]) 1 0.05 =
     Inr [(''ts'', 0), (''Mp'', 0), (''ess'', 0), (''ess_percent'', 0),
          (''y_max'', 1), (''y_final'', 1), (''settling_band'', 0.05)]"
  by (simp add: calcular_metricas_respuesta_def settling_time_def upt_conv_Cons)

lemma offset_metrics:
  "calcular_metricas_respuesta sample_time (map Finite [2, 2, 2, 2, 2, 2, 2, 2, 2, 2]) 1 0.05 =
     Inr [(''ts'', 9), (''Mp'', 100), (''ess'', - 1), (''ess_percent'', - 100),
          (''y_max'', 2), (''y_final'', 2), (''settling_band'', 0.05)]"
  by (simp add: calcular_metricas_respuesta_def settling_time_def upt_conv_Cons)

lemma map_Finite_eq: "map Finite xs = map Finite ys \<Longrightarrow> xs = ys"
  by (simp add: inj_map_eq_map inj_on_def)

subsection \<open>Settling time\<close>

text \<open>
  C5, as stated: the settling time is the time of the sample that follows the last
  sample outside the band, \<open>time[first]\<close> when every sample is inside and \<open>time[last]\<close>
  when no sample is inside. In the trace below the first nine samples are inside the
  band and the last one (index 9) is outside: no sample follows it, and the result is
  the time of that last sample itself.
\<close>

theorem settling_time_final_excursion_counterexample:
  "calcular_metricas_respuesta sample_time (map Finite [1, 1, 1, 1, 1, 1, 1, 1, 1, 2]) 1 0.05 =
     Inr [(''ts'', 9), (''Mp'', 100), (''ess'', - 1), (''ess_percent'', - 100),
          (''y_max'', 2), (''y_final'', 2), (''settling_band'', 0.05)]
   \<and> 0.05 * \<bar>1\<bar> < \<bar>[1, 1, 1, 1, 1, 1, 1, 1, 1, 2 :: real] ! 9 - 1\<bar>
   \<and> \<bar>[1, 1, 1, 1, 1, 1, 1, 1, 1, 2 :: real] ! 0 - 1\<bar> \<le> 0.05 * \<bar>1\<bar>
   \<and> \<not> Suc 9 < length [1, 1, 1, 1, 1, 1, 1, 1, 1, 2 :: real]"
  by (simp add: calcular_metricas_respuesta_def settling_time_def upt_conv_Cons)

text \<open>
  C5, amended: for every trace that passes validation, the settling time is the time
  of the sample that follows the last sample outside the band when there is such a
  following sample; it is \<open>time[first]\<close> when every sample is inside the band; and it is
  \<open>time[last]\<close> when the last sample is outside the band, in particular when no sample
  is inside the band.
\<close>

theorem settling_time_after_last_excursion:
  assumes "calcular_metricas_respuesta t y yref tolerance = Inr m"
  shows "\<exists>tv yv ts. t = map Finite tv \<and> y = map Finite yv \<and> map_of m ''ts'' = Some ts
    \<and> (\<forall>i. Suc i < length yv \<and> tolerance * \<bar>yref\<bar> < \<bar>yv ! i - yref\<bar>
            \<and> (\<forall>j. i < j \<and> j < length yv \<longrightarrow> \<bar>yv ! j - yref\<bar> \<le> tolerance * \<bar>yref\<bar>)
          \<longrightarrow> ts = tv ! Suc i)
    \<and> ((\<forall>i<length yv. \<bar>yv ! i - yref\<bar> \<le> tolerance * \<bar>yref\<bar>) \<longrightarrow> ts = tv ! 0)
    \<and> ((\<forall>i<length yv. tolerance * \<bar>yref\<bar> < \<bar>yv ! i - yref\<bar>)
          \<longrightarrow> ts = tv ! (length tv - 1))
    \<and> (tolerance * \<bar>yref\<bar> < \<bar>yv ! (length yv - 1) - yref\<bar>
          \<longrightarrow> ts = tv ! (length tv - 1))"
proof -
  from assms obtain tv yv where t: "t = map Finite tv" and y: "y = map Finite yv"
    and n: "10 \<le> length tv" and len: "length tv = length yv"
    and m: "m = [(''ts'', settling_time tv yv yref (tolerance * \<bar>yref\<bar>)),
              (''Mp'', (np_max yv - yref) / \<bar>yref\<bar> * 100),
              (''ess'', yref - last yv),
              (''ess_percent'', (yref - last yv) / yref * 100),
              (''y_max'', np_max yv),
              (''y_final'', last yv),
              (''settling_band'', tolerance * \<bar>yref\<bar>)]"
    by (rule calcular_metricas_respuesta_Inr)
  let ?band = "tolerance * \<bar>yref\<bar>"
  let ?ts = "settling_time tv yv yref ?band"
  have ne: "yv \<noteq> []" and tne: "tv \<noteq> []" using n len by auto
  have ts: "map_of m ''ts'' = Some ?ts" by (simp add: m)
  have after: "?ts = tv ! Suc i"
    if "Suc i < length yv" and "?band < \<bar>yv ! i - yref\<bar>"
      and "\<forall>j. i < j \<and> j < length yv \<longrightarrow> \<bar>yv ! j - yref\<bar> \<le> ?band" for i
    using len that by (rule settling_time_after_last_out)
  have inside: "?ts = tv ! 0" if "\<forall>i<length yv. \<bar>yv ! i - yref\<bar> \<le> ?band"
    using ne that by (rule settling_time_all_inside)
  have outside: "?ts = tv ! (length tv - 1)" if "\<forall>i<length yv. ?band < \<bar>yv ! i - yref\<bar>"
    using settling_time_none_inside [OF that, of tv] tne by (simp add: last_conv_nth)
  have lastout: "?ts = tv ! (length tv - 1)" if "?band < \<bar>yv ! (length yv - 1) - yref\<bar>"
    using settling_time_last_out [OF len ne, of ?band yref] that ne tne
    by (simp add: last_conv_nth)
  show ?thesis
    using t y ts after inside outside lastout by blast
qed

theorem settling_time_after_last_excursion_witness:
  "(\<exists>m. calcular_metricas_respuesta sample_time sample_output 1 0.05 = Inr m
        \<and> map_of m ''ts'' = Some 6)
   \<and> (\<exists>m. calcular_metricas_respuesta sample_time
              (map Finite [1, 1, 1, 1, 1, 1, 1, 1, 1, 1]) 1 0.05 = Inr m
        \<and> map_of m ''ts'' = Some 0)
   \<and> (\<exists>m. calcular_metricas_respuesta sample_time
              (map Finite [2, 2, 2, 2, 2, 2, 2, 2, 2, 2]) 1 0.05 = Inr m
        \<and> map_of m ''ts'' = Some 9)"
proof (intro conjI)
  let ?tv = "[0, 1, 2, 3, 4, 5, 6, 7, 8, 9] :: real list"
  show "\<exists>m. calcular_metricas_respuesta sample_time sample_output 1 0.05 = Inr m
        \<and> map_of m ''ts'' = Some 6"
  proof -
    let ?yv = "[0, 0.5, 0.9, 1.2, 1.01, 1.1, 1, 1, 1, 1] :: real list"
    obtain m where m: "calcular_metricas_respuesta sample_time sample_output 1 0.05 = Inr m"
      using sample_metrics by blast
    from settling_time_after_last_excursion [OF m]
    obtain tv yv ts where tv: "sample_time = map Finite tv"
      and yv: "sample_output = map Finite yv"
      and ts: "map_of m ''ts'' = Some ts"
      and after: "\<forall>i. Suc i < length yv \<and> 0.05 * \<bar>1\<bar> < \<bar>yv ! i - 1\<bar>
              \<and> (\<forall>j. i < j \<and> j < length yv \<longrightarrow> \<bar>yv ! j - 1\<bar> \<le> 0.05 * \<bar>1\<bar>)
            \<longrightarrow> ts = tv ! Suc i"
      by blast
    have tv': "tv = ?tv" using tv map_Finite_eq [of ?tv tv] by simp
    have yv': "yv = ?yv" using yv map_Finite_eq [of ?yv yv] by simp
    have later: "\<bar>yv ! j - 1\<bar> \<le> 0.05 * \<bar>1\<bar>" if "5 < j" and "j < length yv" for j
    proof -
      from that have "j = 6 \<or> j = 7 \<or> j = 8 \<or> j = 9" by (auto simp add: yv')
      then show ?thesis by (auto simp add: yv')
    qed
    have "Suc 5 < length yv" and "0.05 * \<bar>1\<bar> < \<bar>yv ! 5 - 1\<bar>"
      by (simp_all add: yv')
    moreover have "\<forall>j. 5 < j \<and> j < length yv \<longrightarrow> \<bar>yv ! j - 1\<bar> \<le> 0.05 * \<bar>1\<bar>"
      using later by blast
    ultimately have "ts = tv ! Suc 5"
      using after by blast
    then have "ts = 6" by (simp add: tv')
    with m ts show ?thesis by blast
  qed
  show "\<exists>m. calcular_metricas_respuesta sample_time
              (map Finite [1, 1, 1, 1, 1, 1, 1, 1, 1, 1]) 1 0.05 = Inr m
        \<and> map_of m ''ts'' = Some 0"
  proof -
    let ?yv = "[1, 1, 1, 1, 1, 1, 1, 1, 1, 1] :: real list"
    obtain m where m: "calcular_metricas_respuesta sample_time (map Finite ?yv) 1 0.05 = Inr m"
      using steady_metrics by blast
    from settling_time_after_last_excursion [OF m]
    obtain tv yv ts where tv: "sample_time = map Finite tv"
      and yv: "map Finite ?yv = map Finite yv"
      and ts: "map_of m ''ts'' = Some ts"
      and inside: "(\<forall>i<length yv. \<bar>yv ! i - 1\<bar> \<le> 0.05 * \<bar>1\<bar>) \<longrightarrow> ts = tv ! 0"
      by blast
    have tv': "tv = ?tv" using tv map_Finite_eq [of ?tv tv] by simp
    have yv': "yv = ?yv" using yv map_Finite_eq [of ?yv yv] by simp
    have "\<forall>v\<in>set yv. \<bar>v - 1\<bar> \<le> 0.05 * \<bar>1\<bar>" by (simp add: yv')
    then have "\<forall>i<length yv. \<bar>yv ! i - 1\<bar> \<le> 0.05 * \<bar>1\<bar>"
      by (simp only: all_set_conv_all_nth)
    with inside have "ts = tv ! 0" by blast
    then have "ts = 0" by (simp add: tv')
    with m ts show ?thesis by blast
  qed
  show "\<exists>m. calcular_metricas_respuesta sample_time
              (map Finite [2, 2, 2, 2, 2, 2, 2, 2, 2, 2]) 1 0.05 = Inr m
        \<and> map_of m ''ts'' = Some 9"
  proof -
    let ?yv = "[2, 2, 2, 2, 2, 2, 2, 2, 2, 2] :: real list"
    obtain m where m: "calcular_metricas_respuesta sample_time (map Finite ?yv) 1 0.05 = Inr m"
      using offset_metrics by blast
    from settling_time_after_last_excursion [OF m]
    obtain tv yv ts where tv: "sample_time = map Finite tv"
      and yv: "map Finite ?yv = map Finite yv"
      and ts: "map_of m ''ts'' = Some ts"
      and outside: "(\<forall>i<length yv. 0.05 * \<bar>1\<bar> < \<bar>yv ! i - 1\<bar>) \<longrightarrow> ts = tv ! (length tv - 1)"
      and lastout: "0.05 * \<bar>1\<bar> < \<bar>yv ! (length yv - 1) - 1\<bar> \<longrightarrow> ts = tv ! (length tv - 1)"
      by blast
    have tv': "tv = ?tv" using tv map_Finite_eq [of ?tv tv] by simp
    have yv': "yv = ?yv" using yv map_Finite_eq [of ?yv yv] by simp
    have "\<forall>v\<in>set yv. 0.05 * \<bar>1\<bar> < \<bar>v - 1\<bar>" by (simp add: yv')
    then have all: "\<forall>i<length yv. 0.05 * \<bar>1\<bar> < \<bar>yv ! i - 1\<bar>"
      by (simp only: all_set_conv_all_nth)
    have "0.05 * \<bar>1\<bar> < \<bar>yv ! (length yv - 1) - 1\<bar>" by (simp add: yv')
    with lastout have "ts = tv ! (length tv - 1)" by blast
    moreover from all outside have "ts = tv ! (length tv - 1)" by blast
    ultimately have "ts = 9" by (simp add: tv')
    with m ts show ?thesis by blast
  qed
qed

subsection \<open>The keys of the result\<close>

text \<open>
  C6, as stated: the result holds a rise time and a peak time next to the peak value.
  The dictionary returned for the sample trace has seven keys, and neither
  \<open>rise_time\<close> nor \<open>peak_time\<close> is one of them.
\<close>

theorem metrics_keys_counterexample:
  "map_sum id (map fst) (calcular_metricas_respuesta sample_time sample_output 1 0.05) =
     Inr [''ts'', ''Mp'', ''ess'', ''ess_percent'', ''y_max'', ''y_final'', ''settling_band'']
   \<and> ''rise_time'' \<notin>
       set [''ts'', ''Mp'', ''ess'', ''ess_percent'', ''y_max'', ''y_final'', ''settling_band'']
   \<and> ''peak_time'' \<notin>
       set [''ts'', ''Mp'', ''ess'', ''ess_percent'', ''y_max'', ''y_final'', ''settling_band'']"
proof -
  have "map_sum id (map fst) (calcular_metricas_respuesta sample_time sample_output 1 0.05) =
     Inr [''ts'', ''Mp'', ''ess'', ''ess_percent'', ''y_max'', ''y_final'', ''settling_band'']"
    by (subst sample_metrics) simp
  moreover have "''rise_time'' \<notin>
       set [''ts'', ''Mp'', ''ess'', ''ess_percent'', ''y_max'', ''y_final'', ''settling_band'']"
    by simp
  moreover have "''peak_time'' \<notin>
       set [''ts'', ''Mp'', ''ess'', ''ess_percent'', ''y_max'', ''y_final'', ''settling_band'']"
    by simp
  ultimately show ?thesis by (intro conjI)
qed

text \<open>
  C6, amended: for every trace that passes validation the result has exactly the keys
  \<open>ts\<close>, \<open>Mp\<close>, \<open>ess\<close>, \<open>ess_percent\<close>, \<open>y_max\<close>, \<open>y_final\<close> and \<open>settling_band\<close>; the peak
  value \<open>y_max\<close> is the maximum of the output; there is no rise time and no peak
  time.
\<close>

theorem metrics_result_keys:
  assumes "calcular_metricas_respuesta t y yref tolerance = Inr m"
  shows "map fst m =
      [''ts'', ''Mp'', ''ess'', ''ess_percent'', ''y_max'', ''y_final'', ''settling_band'']
    \<and> (\<exists>yv. y = map Finite yv \<and> map_of m ''y_max'' = Some (Max (set yv)))
    \<and> map_of m ''rise_time'' = None
    \<and> map_of m ''peak_time'' = None"
proof -
  from assms obtain tv yv where y: "y = map Finite yv"
    and n: "10 \<le> length tv" and len: "length tv = length yv"
    and m: "m = [(''ts'', settling_time tv yv yref (tolerance * \<bar>yref\<bar>)),
              (''Mp'', (np_max yv - yref) / \<bar>yref\<bar> * 100),
              (''ess'', yref - last yv),
              (''ess_percent'', (yref - last yv) / yref * 100),
              (''y_max'', np_max yv),
              (''y_final'', last yv),
              (''settling_band'', tolerance * \<bar>yref\<bar>)]"
    by (rule calcular_metricas_respuesta_Inr)
  have "yv \<noteq> []" using n len by auto
  then have "np_max yv = Max (set yv)" by (rule np_max_eq_Max)
  then have ymax: "map_of m ''y_max'' = Some (Max (set yv))" by (simp add: m)
  have keys: "map fst m =
      [''ts'', ''Mp'', ''ess'', ''ess_percent'', ''y_max'', ''y_final'', ''settling_band'']"
    by (simp add: m)
  have absent: "map_of m ''rise_time'' = None" "map_of m ''peak_time'' = None"
    by (simp_all add: m)
  show ?thesis
  proof (intro conjI exI)
    show "map fst m =
      [''ts'', ''Mp'', ''ess'', ''ess_percent'', ''y_max'', ''y_final'', ''settling_band'']"
      by (rule keys)
    show "y = map Finite yv" by (rule y)
    show "map_of m ''y_max'' = Some (Max (set yv))" by (rule ymax)
    show "map_of m ''rise_time'' = None" by (rule absent(1))
    show "map_of m ''peak_time'' = None" by (rule absent(2))
  qed
qed

theorem metrics_result_keys_witness:
  "\<exists>m. calcular_metricas_respuesta sample_time sample_output 1 0.05 = Inr m
     \<and> map fst m =
        [''ts'', ''Mp'', ''ess'', ''ess_percent'', ''y_max'', ''y_final'', ''settling_band'']
     \<and> map_of m ''rise_time'' = None \<and> map_of m ''peak_time'' = None"
proof -
  obtain m where m: "calcular_metricas_respuesta sample_time sample_output 1 0.05 = Inr m"
    using sample_metrics by blast
  note r = metrics_result_keys [OF m]
  show ?thesis
  proof (intro exI [of _ m] conjI)
    show "calcular_metricas_respuesta sample_time sample_output 1 0.05 = Inr m" by (rule m)
    show "map fst m =
        [''ts'', ''Mp'', ''ess'', ''ess_percent'', ''y_max'', ''y_final'', ''settling_band'']"
      by (rule r [THEN conjunct1])
    show "map_of m ''rise_time'' = None"
      by (rule r [THEN conjunct2, THEN conjunct2, THEN conjunct1])
    show "map_of m ''peak_time'' = None"
      by (rule r [THEN conjunct2, THEN conjunct2, THEN conjunct2])
  qed
qed

subsection \<open>Validation of a trace\<close>



section \<open>Properties of stability and of the open-loop simulation\<close>

lemma polyval_linear: "polyval [a, b] s = of_real a * s + of_real b"
  by (simp add: polyval_def)

lemma last_linspace: "2 \<le> n \<Longrightarrow> last (linspace start stop n) = stop"
  by (simp add: linspace_def)

lemma estimate_settling_time_stable:
  assumes stable: "is_stable tf_poles tf tol" and tol: "0 \<le> tol"
    and ne: "tf_poles tf \<noteq> []"
  shows "estimate_settling_time tf_poles tf tolerance max_time =
           min (5 / \<bar>Max (Re ` set (tf_poles tf))\<bar>) max_time"
proof -
  define M where "M = Max (Re ` set (tf_poles tf))"
  have rs: "map Re (tf_poles tf) \<noteq> []" using ne by simp
  have mx: "np_max (map Re (tf_poles tf)) = M"
    using np_max_eq_Max [OF rs] by (simp add: M_def)
  have "\<forall>r\<in>Re ` set (tf_poles tf). r < - tol"
    using stable by (auto simp add: is_stable_def get_poles_def list_all_iff)
  then have "M < - tol"
    unfolding M_def using ne by (subst Max_less_iff) auto
  then have neg: "M < 0" using tol by simp
  have "estimate_settling_time tf_poles tf tolerance max_time =
      (if M \<ge> 0 then max_time else min (- 5 / M) max_time)"
    using ne by (simp add: estimate_settling_time_def Let_def mx)
  also have "\<dots> = min (5 / \<bar>M\<bar>) max_time"
    using neg by (simp add: abs_of_neg)
  finally show ?thesis unfolding M_def .
qed

subsection \<open>Stability\<close>

text \<open>
  C8. When the library's root finder returns exactly the roots of the denominator,
  \<open>is_stable\<close> holds if and only if every root of the denominator has a real part
  below \<open>- tolerance\<close>; with the default tolerance \<open>1e-10\<close>, \<open>1/(s+1)\<close> is stable and
  \<open>1/(s-1)\<close> is not.
\<close>

theorem is_stable_iff_poles_left:
  "(set (tf_poles tf) = {s. polyval (den tf) s = 0} \<longrightarrow>
      (is_stable tf_poles tf tolerance \<longleftrightarrow>
         (\<forall>s. polyval (den tf) s = 0 \<longrightarrow> Re s < - tolerance)))
   \<and> (set (tf_poles \<lparr>num = [1], den = [1, 1]\<rparr>) =
          {s. polyval (den \<lparr>num = [1], den = [1, 1]\<rparr>) s = 0} \<longrightarrow>
        is_stable tf_poles \<lparr>num = [1], den = [1, 1]\<rparr> (1 / 10 ^ 10))
   \<and> (set (tf_poles \<lparr>num = [1], den = [1, - 1]\<rparr>) =
          {s. polyval (den \<lparr>num = [1], den = [1, - 1]\<rparr>) s = 0} \<longrightarrow>
        \<not> is_stable tf_poles \<lparr>num = [1], den = [1, - 1]\<rparr> (1 / 10 ^ 10))"
proof -
  have general: "is_stable f g tol \<longleftrightarrow> (\<forall>s. polyval (den g) s = 0 \<longrightarrow> Re s < - tol)"
    if "set (f g) = {s. polyval (den g) s = 0}" for f g tol
    using that by (auto simp add: is_stable_def get_poles_def list_all_iff)
  have "s + 1 = 0 \<longleftrightarrow> s = - 1" for s :: complex
    by (simp add: eq_neg_iff_add_eq_0)
  then have r1: "{s. polyval [1, 1] s = 0} = {- 1}"
    by (auto simp add: polyval_linear)
  have r2: "{s. polyval [1, - 1] s = 0} = {1}"
    by (auto simp add: polyval_linear)
  have s1: "is_stable tf_poles \<lparr>num = [1], den = [1, 1]\<rparr> (1 / 10 ^ 10)"
    if "set (tf_poles \<lparr>num = [1], den = [1, 1]\<rparr>) =
          {s. polyval (den \<lparr>num = [1], den = [1, 1]\<rparr>) s = 0}"
    using that by (simp add: is_stable_def get_poles_def list_all_iff r1)
  have s2: "\<not> is_stable tf_poles \<lparr>num = [1], den = [1, - 1]\<rparr> (1 / 10 ^ 10)"
    if "set (tf_poles \<lparr>num = [1], den = [1, - 1]\<rparr>) =
          {s. polyval (den \<lparr>num = [1], den = [1, - 1]\<rparr>) s = 0}"
    using that by (simp add: is_stable_def get_poles_def list_all_iff r2)
  show ?thesis
    using general [of tf_poles tf tolerance] s1 s2 by (intro conjI impI)
qed

theorem is_stable_iff_poles_left_witness:
  "is_stable (\<lambda>g. if den g = [1, 1] then [- 1] else [1]) \<lparr>num = [1], den = [1, 1]\<rparr> (1 / 10 ^ 10)
   \<and> \<not> is_stable (\<lambda>g. if den g = [1, 1] then [- 1] else [1])
         \<lparr>num = [1], den = [1, - 1]\<rparr> (1 / 10 ^ 10)
   \<and> {s. polyval [1, 1] s = 0} \<subseteq> {s. Re s < - (1 / 10 ^ 10)}"
proof -
  let ?f = "\<lambda>g :: transfer_function. if den g = [1, 1] then [- 1] else [1 :: complex]"
  have "s + 1 = 0 \<longleftrightarrow> s = - 1" for s :: complex
    by (simp add: eq_neg_iff_add_eq_0)
  then have h1: "set (?f \<lparr>num = [1], den = [1, 1]\<rparr>) =
      {s. polyval (den \<lparr>num = [1], den = [1, 1]\<rparr>) s = 0}"
    by (auto simp add: polyval_linear)
  have h2: "set (?f \<lparr>num = [1], den = [1, - 1]\<rparr>) =
      {s. polyval (den \<lparr>num = [1], den = [1, - 1]\<rparr>) s = 0}"
    by (auto simp add: polyval_linear)
  note inst = is_stable_iff_poles_left [of ?f "\<lparr>num = [1], den = [1, 1]\<rparr>" "1 / 10 ^ 10"]
  have a: "is_stable ?f \<lparr>num = [1], den = [1, 1]\<rparr> (1 / 10 ^ 10)"
    using inst [THEN conjunct2, THEN conjunct1] h1 by (rule mp)
  have b: "\<not> is_stable ?f \<lparr>num = [1], den = [1, - 1]\<rparr> (1 / 10 ^ 10)"
    using inst [THEN conjunct2, THEN conjunct2] h2 by (rule mp)
  have "is_stable ?f \<lparr>num = [1], den = [1, 1]\<rparr> (1 / 10 ^ 10) \<longleftrightarrow>
      (\<forall>s. polyval (den \<lparr>num = [1], den = [1, 1]\<rparr>) s = 0 \<longrightarrow> Re s < - (1 / 10 ^ 10))"
    using inst [THEN conjunct1] h1 by (rule mp)
  with a have c: "{s. polyval [1, 1] s = 0} \<subseteq> {s. Re s < - (1 / 10 ^ 10)}"
    by auto
  from a b c show ?thesis by (intro conjI)
qed

subsection \<open>Unstable systems are not simulated\<close>

text \<open>
  C9. For a transfer function that is not stable (at the default tolerance) the
  simulation fails with the error of its stability check, whatever the other arguments,
  and returns no trace; for a stable one it never fails with that error.
\<close>

theorem unstable_system_rejected:
  "(\<not> is_stable tf_poles tf (1 / 10 ^ 10) \<longrightarrow>
      simulate_step_response tf_poles step_response (Some tf) t_final num_points input_magnitude
        = Inl Unstable_system)
   \<and> (is_stable tf_poles tf (1 / 10 ^ 10) \<longrightarrow>
      simulate_step_response tf_poles step_response (Some tf) t_final num_points input_magnitude
        \<noteq> Inl Unstable_system)"
  by (simp add: simulate_step_response_def Let_def split: option.splits sum.splits prod.splits)

theorem unstable_system_rejected_witness:
  "simulate_step_response (\<lambda>g. [1]) (\<lambda>g T. Some (T, T)) (Some \<lparr>num = [1], den = [1, - 1]\<rparr>)
      (Some 10) 1000 1 = Inl Unstable_system
   \<and> simulate_step_response (\<lambda>g. [- 1]) (\<lambda>g T. Some (T, T)) (Some \<lparr>num = [1], den = [1, 1]\<rparr>)
      (Some 10) 1000 1 \<noteq> Inl Unstable_system"
proof -
  have u: "\<not> is_stable (\<lambda>g. [1]) \<lparr>num = [1], den = [1, - 1]\<rparr> (1 / 10 ^ 10)"
    by (simp add: is_stable_def get_poles_def)
  have s: "is_stable (\<lambda>g. [- 1]) \<lparr>num = [1], den = [1, 1]\<rparr> (1 / 10 ^ 10)"
    by (simp add: is_stable_def get_poles_def)
  show ?thesis
    using unstable_system_rejected [of "\<lambda>g. [1]" "\<lparr>num = [1], den = [1, - 1]\<rparr>"
        "\<lambda>g T. Some (T, T)" "Some 10" 1000 1, THEN conjunct1, THEN mp, OF u]
      unstable_system_rejected [of "\<lambda>g. [- 1]" "\<lparr>num = [1], den = [1, 1]\<rparr>"
        "\<lambda>g T. Some (T, T)" "Some 10" 1000 1, THEN conjunct2, THEN mp, OF s]
    by (intro conjI)
qed

subsection \<open>The time horizon\<close>

text \<open>
  C10, as stated: when the requested \<open>t_final\<close> is shorter than the settling estimate
  \<open>5 / |Re p|\<close> of the slowest pole \<open>p\<close>, the horizon is extended to that estimate
  (capped). For \<open>1/(100 s + 1)\<close>, with its pole at \<open>-1/100\<close>, the estimate is 500; a
  call with \<open>t_final = 1\<close> simulates up to time 1.
\<close>

theorem horizon_not_extended_counterexample:
  "map_sum id (\<lambda>(t_response, y_response). last t_response)
     (simulate_step_response (\<lambda>g. [- (1 / 100)])
        (\<lambda>g T. Some (T, map (\<lambda>t. 1 - exp (- t / 100)) T))
        (Some \<lparr>num = [1], den = [100, 1]\<rparr>) (Some 1) 10 1) = Inr 1
   \<and> (1 :: real) < min (5 / \<bar>Re (- (1 / 100))\<bar>) 1000"
  by (simp add: simulate_step_response_def is_stable_def get_poles_def linspace_def)

text \<open>
  C10, amended: for a stable transfer function (and at least ten points, a positive
  input), the simulation runs the library on \<open>linspace(0, h, num_points)\<close>, whose last
  sample is \<open>h\<close>. When the caller passes no \<open>t_final\<close>, \<open>h\<close> is the estimate: the
  minimum of \<open>5 / |Re p|\<close> for the slowest pole \<open>p\<close> and the cap 1000, or 10 when there
  are no poles. When the caller passes a positive \<open>t_final\<close>, \<open>h\<close> is that value,
  unchanged.
\<close>

theorem open_loop_horizon:
  assumes "is_stable tf_poles tf (1 / 10 ^ 10)" and "10 \<le> num_points"
    and "0 < input_magnitude"
  shows "simulate_step_response tf_poles step_response (Some tf) None num_points
             input_magnitude =
           (case step_response tf
                   (linspace 0 (estimate_settling_time tf_poles tf 0.05 1000) (nat num_points)) of
              None \<Rightarrow> Inl Step_response_failed
            | Some (t_response, y_response) \<Rightarrow>
                Inr (t_response, map (\<lambda>v. v * input_magnitude) y_response))
    \<and> (0 < v \<longrightarrow>
         simulate_step_response tf_poles step_response (Some tf) (Some v) num_points
             input_magnitude =
           (case step_response tf (linspace 0 v (nat num_points)) of
              None \<Rightarrow> Inl Step_response_failed
            | Some (t_response, y_response) \<Rightarrow>
                Inr (t_response, map (\<lambda>v. v * input_magnitude) y_response)))
    \<and> last (linspace 0 h (nat num_points)) = h
    \<and> (tf_poles tf \<noteq> [] \<longrightarrow>
         estimate_settling_time tf_poles tf 0.05 1000 =
           min (5 / \<bar>Max (Re ` set (tf_poles tf))\<bar>) 1000)
    \<and> (tf_poles tf = [] \<longrightarrow> estimate_settling_time tf_poles tf 0.05 1000 = 10)"
proof (intro conjI impI)
  show "simulate_step_response tf_poles step_response (Some tf) None num_points
             input_magnitude =
           (case step_response tf
                   (linspace 0 (estimate_settling_time tf_poles tf 0.05 1000) (nat num_points)) of
              None \<Rightarrow> Inl Step_response_failed
            | Some (t_response, y_response) \<Rightarrow>
                Inr (t_response, map (\<lambda>v. v * input_magnitude) y_response))"
    using assms by (simp add: simulate_step_response_def)
  show "simulate_step_response tf_poles step_response (Some tf) (Some v) num_points
             input_magnitude =
           (case step_response tf (linspace 0 v (nat num_points)) of
              None \<Rightarrow> Inl Step_response_failed
            | Some (t_response, y_response) \<Rightarrow>
                Inr (t_response, map (\<lambda>v. v * input_magnitude) y_response))" if "0 < v"
    using assms that by (simp add: simulate_step_response_def)
  show "last (linspace 0 h (nat num_points)) = h"
    using assms(2) by (simp add: last_linspace)
  show "estimate_settling_time tf_poles tf 0.05 1000 =
           min (5 / \<bar>Max (Re ` set (tf_poles tf))\<bar>) 1000" if "tf_poles tf \<noteq> []"
    using assms(1) _ that by (rule estimate_settling_time_stable) simp
  show "estimate_settling_time tf_poles tf 0.05 1000 = 10" if "tf_poles tf = []"
    using that by (simp add: estimate_settling_time_def)
qed

theorem open_loop_horizon_witness:
  "map_sum id (\<lambda>(t_response, y_response). last t_response)
     (simulate_step_response (\<lambda>g. [- (1 / 100)]) (\<lambda>g T. Some (T, T))
        (Some \<lparr>num = [1], den = [100, 1]\<rparr>) None 10 1) = Inr 500
   \<and> map_sum id (\<lambda>(t_response, y_response). last t_response)
     (simulate_step_response (\<lambda>g. [- (1 / 100)]) (\<lambda>g T. Some (T, T))
        (Some \<lparr>num = [1], den = [100, 1]\<rparr>) (Some 1) 10 1) = Inr 1
   \<and> map_sum id (\<lambda>(t_response, y_response). last t_response)
     (simulate_step_response (\<lambda>g. []) (\<lambda>g T. Some (T, T))
        (Some \<lparr>num = [1], den = [1]\<rparr>) None 10 1) = Inr 10"
proof -
  let ?f = "\<lambda>g :: transfer_function. [- (1 / 100) :: complex]"
  let ?e = "\<lambda>g :: transfer_function. [] :: complex list"
  let ?g = "\<lparr>num = [1], den = [100, 1]\<rparr>"
  let ?c = "\<lparr>num = [1], den = [1]\<rparr>"
  have s: "is_stable ?f ?g (1 / 10 ^ 10)"
    by (simp add: is_stable_def get_poles_def)
  have s': "is_stable ?e ?c (1 / 10 ^ 10)"
    by (simp add: is_stable_def get_poles_def)
  note h = open_loop_horizon [of ?f ?g 10 1 "\<lambda>g T. Some (T, T)" 1, OF s]
  note k = open_loop_horizon [of ?e ?c 10 1 "\<lambda>g T. Some (T, T)" 1, OF s']
  have est: "estimate_settling_time ?f ?g 0.05 1000 = 500"
    using h [of 0] by simp
  have est': "estimate_settling_time ?e ?c 0.05 1000 = 10"
    using k [of 0] by simp
  have l500: "last (linspace 0 500 (nat 10)) = 500"
    using h [of 500] by simp
  have l1: "last (linspace 0 1 (nat 10)) = 1"
    using h [of 1] by simp
  have l10: "last (linspace 0 10 (nat 10)) = 10"
    using k [of 10] by simp
  have a: "simulate_step_response ?f (\<lambda>g T. Some (T, T)) (Some ?g) None 10 1 =
      Inr (linspace 0 500 (nat 10), map (\<lambda>v. v * 1) (linspace 0 500 (nat 10)))"
    using h [of 0] by (simp add: est)
  have b: "simulate_step_response ?f (\<lambda>g T. Some (T, T)) (Some ?g) (Some 1) 10 1 =
      Inr (linspace 0 1 (nat 10), map (\<lambda>v. v * 1) (linspace 0 1 (nat 10)))"
    using h [of 0] by simp
  have c: "simulate_step_response ?e (\<lambda>g T. Some (T, T)) (Some ?c) None 10 1 =
      Inr (linspace 0 10 (nat 10), map (\<lambda>v. v * 1) (linspace 0 10 (nat 10)))"
    using k [of 0] by (simp add: est')
  show ?thesis
    unfolding a b c using l500 l1 l10 by simp
qed

end
